theory Spec2Isabelle
  imports Complex_Main "HOL-Library.Word"
begin

section \<open>JavaScript strings\<close>

text \<open>
  A JavaScript string is a sequence of UTF-16 code units. String literals of the
  source are ASCII; \<open>js\<close> turns an ASCII literal into its code units.
\<close>

type_synonym jsstring = "16 word list"

definition js :: "string \<Rightarrow> jsstring" where
  "js s = map (\<lambda>c. of_char c) s"

text \<open>
  \<^verbatim>\<open>String.prototype.trim\<close> removes ECMAScript WhiteSpace and LineTerminator code
  points from both ends: TAB, LF, VT, FF, CR, SPACE, NBSP, U+1680, U+2000..U+200A,
  U+2028, U+2029, U+202F, U+205F, U+3000 and U+FEFF.
\<close>

definition isWhiteSpace :: "16 word \<Rightarrow> bool" where
  "isWhiteSpace c \<longleftrightarrow>
     c = 0x0009 \<or> c = 0x000A \<or> c = 0x000B \<or> c = 0x000C \<or> c = 0x000D \<or>
     c = 0x0020 \<or> c = 0x00A0 \<or> c = 0x1680 \<or> (0x2000 \<le> c \<and> c \<le> 0x200A) \<or>
     c = 0x2028 \<or> c = 0x2029 \<or> c = 0x202F \<or> c = 0x205F \<or> c = 0x3000 \<or>
     c = 0xFEFF"

definition trim :: "jsstring \<Rightarrow> jsstring" where
  "trim s = rev (dropWhile isWhiteSpace (rev (dropWhile isWhiteSpace s)))"

text \<open>\<^verbatim>\<open>a.startsWith(b)\<close>: \<open>b\<close> is an initial segment of \<open>a\<close>.\<close>

fun startsWith :: "jsstring \<Rightarrow> jsstring \<Rightarrow> bool" where
  "startsWith a [] = True"
| "startsWith [] (y # ys) = False"
| "startsWith (x # xs) (y # ys) = (x = y \<and> startsWith xs ys)"

text \<open>\<^verbatim>\<open>s.includes(' ')\<close>.\<close>

definition includes_space :: "jsstring \<Rightarrow> bool" where
  "includes_space s \<longleftrightarrow> (0x0020 :: 16 word) \<in> set s"

text \<open>
  \<^verbatim>\<open>Number.prototype.toString\<close> on an integer (the values of \<^verbatim>\<open>Date.now()\<close> are
  integers far below \<open>10^21\<close>, where JavaScript still prints plain decimal digits).
\<close>

fun nat_digits :: "nat \<Rightarrow> jsstring" where
  "nat_digits n =
     (if n < 10 then [0x0030 + of_nat n]
      else nat_digits (n div 10) @ [0x0030 + of_nat (n mod 10)])"

declare nat_digits.simps [simp del]

definition toString :: "int \<Rightarrow> jsstring" where
  "toString n = (if n < 0 then 0x002D # nat_digits (nat (- n)) else nat_digits (nat n))"

section \<open>Data model (chat-message.tsx)\<close>

text \<open>
  A runtime value of static type \<^verbatim>\<open>unknown\<close>: the rendering code only asks whether
  \<^verbatim>\<open>typeof v === 'string'\<close>.
\<close>

datatype jsvalue = JString jsstring | JNonString

text \<open>
  \<^verbatim>\<open>metadata?: { record_name?: string; source_file?: string; [key: string]: unknown }\<close>
\<close>

record doc_metadata =
  record_name :: "jsvalue option"
  source_file :: "jsvalue option"
  other_keys :: "(jsstring \<times> jsvalue) list"

text \<open>One element of \<^verbatim>\<open>relevant_documents\<close>. A JavaScript number is idealised as a real.\<close>

record RelevantDocument =
  content_doc :: jsstring
  distance :: real
  metadata_doc :: "doc_metadata option"

datatype message_type = User | Assistant

record message_metadata =
  relevant_documents :: "RelevantDocument list option"
  model_used :: "jsstring option"

text \<open>
  \<^verbatim>\<open>interface ChatMessage\<close>. The fields \<^verbatim>\<open>id\<close> and \<^verbatim>\<open>type\<close> carry a suffix; a
  \<^verbatim>\<open>Date\<close> is its number of milliseconds since the epoch.
\<close>

record ChatMessage =
  id_msg :: jsstring
  type_msg :: message_type
  content :: jsstring
  timestamp :: int
  metadata :: "message_metadata option"

section \<open>The query interface (lib/api)\<close>

text \<open>The object literal passed to \<^verbatim>\<open>apiClient.query\<close> in \<^verbatim>\<open>handleSendMessage\<close>.\<close>

record QueryRequest =
  query :: jsstring
  max_results :: int
  include_metadata :: bool

text \<open>
  Modelled from the spec: the response type of \<^verbatim>\<open>apiClient.query\<close>, whose declaration
  lives in the module \<^verbatim>\<open>@/lib/api\<close>. The spec gives the response as
  \<^verbatim>\<open>{answer: string, relevant_documents: [...], model_used: string}\<close>, and
  \<^verbatim>\<open>handleSendMessage\<close> reads exactly these three fields.
\<close>

record QueryResponse =
  answer :: jsstring
  relevant_documents_res :: "RelevantDocument list"
  model_used_res :: jsstring

text \<open>
  What a \<^verbatim>\<open>catch (err)\<close> clause can receive: an \<^verbatim>\<open>Error\<close> instance with its
  \<^verbatim>\<open>message\<close>, or any other thrown value.
\<close>

datatype thrown = ErrorObject jsstring | NonError

text \<open>How the awaited promise of \<^verbatim>\<open>apiClient.query\<close> settles.\<close>

datatype outcome = Resolved QueryResponse | Rejected thrown

section \<open>Component state (animated-ai-chat.tsx)\<close>

text \<open>
  The \<^verbatim>\<open>useState\<close> cells of \<^verbatim>\<open>AnimatedAIChat\<close>. The cell \<^verbatim>\<open>value\<close> carries a suffix.
  The textarea height set by \<^verbatim>\<open>adjustHeight\<close> lives in the DOM, not in component
  state, and is left out.
\<close>

record chat_state =
  value_st :: jsstring
  activeSuggestion :: int
  showCommandPalette :: bool
  mousePosition :: "real \<times> real"
  messages :: "ChatMessage list"
  isLoading :: bool
  error :: "jsstring option"
  inputFocused :: bool

definition initial_state :: chat_state where
  "initial_state =
     \<lparr>value_st = [], activeSuggestion = - 1, showCommandPalette = False,
      mousePosition = (0, 0), messages = [], isLoading = False, error = None,
      inputFocused = False\<rparr>"

text \<open>\<^verbatim>\<open>CommandSuggestion\<close>; the icon is a React node and is left out.\<close>

record CommandSuggestion =
  label :: jsstring
  description :: jsstring
  prefix :: jsstring

definition commandSuggestions :: "CommandSuggestion list" where
  "commandSuggestions =
     [\<lparr>label = js ''Chandrayaan'', description = js ''Learn about Chandrayaan missions'',
       prefix = js ''/chandrayaan''\<rparr>,
      \<lparr>label = js ''Satellites'', description = js ''Explore ISRO satellites'',
       prefix = js ''/satellites''\<rparr>,
      \<lparr>label = js ''Launch Vehicles'', description = js ''Learn about rockets'',
       prefix = js ''/launchers''\<rparr>,
      \<lparr>label = js ''ISRO Centres'', description = js ''Explore ISRO facilities'',
       prefix = js ''/centres''\<rparr>]"

text \<open>The welcome message; its \<^verbatim>\<open>timestamp\<close> is the \<^verbatim>\<open>new Date()\<close> read when it is built.\<close>

definition welcome_content :: jsstring where
  "welcome_content =
     js (''Hello! I'' @ [CHR 0x27] @ ''m Vedika, your ISRO knowledge assistant. '' @
         ''I can help you with information about Indian satellites, spacecraft, '' @
         ''launch vehicles, and space missions. What would you like to know?'')"

definition welcomeMessage :: "int \<Rightarrow> ChatMessage" where
  "welcomeMessage now =
     \<lparr>id_msg = js ''welcome'', type_msg = Assistant, content = welcome_content,
      timestamp = now, metadata = None\<rparr>"

section \<open>Sending a message\<close>

text \<open>
  The two clock readings of one run of a handler: \<^verbatim>\<open>Date.now()\<close>, then \<^verbatim>\<open>new Date()\<close>.
\<close>

type_synonym clock = "int \<times> int"

text \<open>
  \<^verbatim>\<open>handleSendMessage\<close> is an async function. \<open>handleSendMessage_begin\<close> is its
  synchronous part, up to the \<^verbatim>\<open>await\<close>: it returns the new state and the request
  handed to \<^verbatim>\<open>apiClient.query\<close>, if the guard let one through.
\<close>

definition handleSendMessage_begin :: "clock \<Rightarrow> chat_state \<Rightarrow> chat_state \<times> QueryRequest option" where
  "handleSendMessage_begin clk s =
     (if trim (value_st s) \<noteq> [] \<and> \<not> isLoading s then
        let userMessage =
              \<lparr>id_msg = toString (fst clk), type_msg = User, content = trim (value_st s),
               timestamp = snd clk, metadata = None\<rparr>
        in (s\<lparr>messages := messages s @ [userMessage], value_st := [],
               isLoading := True, error := None\<rparr>,
            Some \<lparr>query = content userMessage, max_results = 5, include_metadata = True\<rparr>)
      else (s, None))"

text \<open>
  \<open>handleSendMessage_resume\<close> is the continuation after the \<^verbatim>\<open>await\<close>: the rest of
  the \<^verbatim>\<open>try\<close> block when the promise resolved, the \<^verbatim>\<open>catch\<close> block when it rejected,
  and the \<^verbatim>\<open>finally\<close> block in both cases. Its state updates are functional
  (\<^verbatim>\<open>prev => ...\<close>), so they apply to the state current at that moment.
\<close>

definition handleSendMessage_resume :: "clock \<Rightarrow> outcome \<Rightarrow> chat_state \<Rightarrow> chat_state" where
  "handleSendMessage_resume clk out s =
     (case out of
        Resolved response \<Rightarrow>
          let assistantMessage =
                \<lparr>id_msg = toString (fst clk + 1), type_msg = Assistant,
                 content = answer response, timestamp = snd clk,
                 metadata = Some \<lparr>relevant_documents = Some (relevant_documents_res response),
                                  model_used = Some (model_used_res response)\<rparr>\<rparr>
          in s\<lparr>messages := messages s @ [assistantMessage], isLoading := False\<rparr>
      | Rejected err \<Rightarrow>
          s\<lparr>error := Some (case err of ErrorObject message \<Rightarrow> message
                                     | NonError \<Rightarrow> js ''Failed to get response''),
            isLoading := False\<rparr>)"

text \<open>
  One whole run of \<^verbatim>\<open>handleSendMessage\<close> with no other event in between: \<open>api\<close> says
  how the backend settles each request; the second component lists the calls made to
  \<^verbatim>\<open>apiClient.query\<close>.
\<close>

definition handleSendMessage ::
    "(QueryRequest \<Rightarrow> outcome) \<Rightarrow> clock \<Rightarrow> clock \<Rightarrow> chat_state \<Rightarrow> chat_state \<times> QueryRequest list" where
  "handleSendMessage api clk clk' s =
     (case handleSendMessage_begin clk s of
        (s', None) \<Rightarrow> (s', [])
      | (s', Some req) \<Rightarrow> (handleSendMessage_resume clk' (api req) s', [req]))"

section \<open>Other handlers\<close>

text \<open>\<^verbatim>\<open>clearChat\<close>; the argument is the \<^verbatim>\<open>new Date()\<close> it reads.\<close>

definition clearChat :: "int \<Rightarrow> chat_state \<Rightarrow> chat_state" where
  "clearChat now s = s\<lparr>messages := [welcomeMessage now], error := None\<rparr>"

text \<open>
  Reading \<^verbatim>\<open>commandSuggestions[i].prefix\<close> with \<open>i\<close> out of range dereferences
  \<^verbatim>\<open>undefined\<close> and throws.
\<close>

datatype js_error = TypeError

text \<open>The values of \<^verbatim>\<open>e.key\<close> that \<^verbatim>\<open>handleKeyDown\<close> tells apart.\<close>

datatype key = ArrowDown | ArrowUp | Tab | Enter | Escape | OtherKey

text \<open>
  \<^verbatim>\<open>handleKeyDown\<close>; the boolean is \<^verbatim>\<open>e.shiftKey\<close>. In the last branch it calls
  \<^verbatim>\<open>handleSendMessage\<close>, whose synchronous part runs inside this handler.
\<close>

definition handleKeyDown ::
    "key \<Rightarrow> bool \<Rightarrow> clock \<Rightarrow> chat_state \<Rightarrow> js_error + chat_state \<times> QueryRequest option" where
  "handleKeyDown k shiftKey clk s =
     (if showCommandPalette s then
        (if k = ArrowDown then
           Inr (s\<lparr>activeSuggestion :=
                     (if activeSuggestion s < int (length commandSuggestions) - 1
                      then activeSuggestion s + 1 else 0)\<rparr>, None)
         else if k = ArrowUp then
           Inr (s\<lparr>activeSuggestion :=
                     (if activeSuggestion s > 0
                      then activeSuggestion s - 1 else int (length commandSuggestions) - 1)\<rparr>, None)
         else if k = Tab \<or> k = Enter then
           (if activeSuggestion s \<ge> 0 then
              (if nat (activeSuggestion s) < length commandSuggestions then
                 let selectedCommand = commandSuggestions ! nat (activeSuggestion s)
                 in Inr (s\<lparr>value_st := prefix selectedCommand @ [0x0020],
                          showCommandPalette := False\<rparr>, None)
               else Inl TypeError)
            else Inr (s, None))
         else if k = Escape then Inr (s\<lparr>showCommandPalette := False\<rparr>, None)
         else Inr (s, None))
      else if k = Enter \<and> \<not> shiftKey then
        (if trim (value_st s) \<noteq> [] then Inr (handleSendMessage_begin clk s) else Inr (s, None))
      else Inr (s, None))"

text \<open>\<^verbatim>\<open>selectCommandSuggestion\<close>.\<close>

definition selectCommandSuggestion :: "nat \<Rightarrow> chat_state \<Rightarrow> js_error + chat_state" where
  "selectCommandSuggestion index s =
     (if index < length commandSuggestions then
        let selectedCommand = commandSuggestions ! index;
            query =
              (if prefix selectedCommand = js ''/chandrayaan'' then
                 js ''Tell me about Chandrayaan missions''
               else if prefix selectedCommand = js ''/satellites'' then
                 js ''What satellites has ISRO launched?''
               else if prefix selectedCommand = js ''/launchers'' then
                 js ''What launch vehicles does ISRO use?''
               else if prefix selectedCommand = js ''/centres'' then
                 js ''What are the main ISRO centres and facilities?''
               else prefix selectedCommand @ [0x0020])
        in Inr (s\<lparr>value_st := query, showCommandPalette := False\<rparr>)
      else Inl TypeError)"

section \<open>Effects\<close>

text \<open>\<^verbatim>\<open>Array.prototype.findIndex\<close>: the index of the first match, or \<open>-1\<close>.\<close>

fun findIndex :: "('a \<Rightarrow> bool) \<Rightarrow> 'a list \<Rightarrow> int" where
  "findIndex p [] = - 1"
| "findIndex p (x # xs) =
     (if p x then 0 else (let i = findIndex p xs in if i < 0 then - 1 else i + 1))"

text \<open>The effect with dependencies \<^verbatim>\<open>[value, commandSuggestions]\<close>.\<close>

definition effect_commandPalette :: "chat_state \<Rightarrow> chat_state" where
  "effect_commandPalette s =
     (if startsWith (value_st s) (js ''/'') \<and> \<not> includes_space (value_st s) then
        let matchingSuggestionIndex =
              findIndex (\<lambda>cmd. startsWith (prefix cmd) (value_st s)) commandSuggestions
        in s\<lparr>showCommandPalette := True,
             activeSuggestion :=
               (if matchingSuggestionIndex \<ge> 0 then matchingSuggestionIndex else - 1)\<rparr>
      else s\<lparr>showCommandPalette := False\<rparr>)"

text \<open>The effect with dependency \<^verbatim>\<open>[messages.length]\<close>.\<close>

definition effect_welcome :: "int \<Rightarrow> chat_state \<Rightarrow> chat_state" where
  "effect_welcome now s =
     (if length (messages s) = 0 then s\<lparr>messages := [welcomeMessage now]\<rparr> else s)"

text \<open>
  After a render, React runs the effects whose dependencies changed. The first effect
  writes only \<open>showCommandPalette\<close> and \<open>activeSuggestion\<close>, the second one only
  makes an empty message list non-empty, so one pass reaches the fixed point.
\<close>

definition after_render :: "int \<Rightarrow> chat_state \<Rightarrow> chat_state \<Rightarrow> chat_state" where
  "after_render now old new =
     (let s1 = (if value_st new \<noteq> value_st old then effect_commandPalette new else new);
          s2 = (if length (messages s1) \<noteq> length (messages old) then effect_welcome now s1 else s1)
      in s2)"

text \<open>On mount every effect runs once.\<close>

definition mounted :: "int \<Rightarrow> chat_state" where
  "mounted now = effect_welcome now (effect_commandPalette initial_state)"

section \<open>What is rendered\<close>


text \<open>
  \<^verbatim>\<open>{error && (...)}\<close>: the error banner and the text it shows. \<^verbatim>\<open>null\<close> and the
  empty string are both falsy.
\<close>

definition error_banner :: "chat_state \<Rightarrow> jsstring option" where
  "error_banner s = (case error s of None \<Rightarrow> None | Some e \<Rightarrow> if e = [] then None else Some e)"

text \<open>
  The Sources block of \<^verbatim>\<open>ChatMessage\<close>: the number in its header and the cards below.
\<close>

record source_card =
  card_title :: jsstring
  card_content :: jsstring
  card_source_file :: "jsstring option"

record sources_block =
  header_count :: nat
  cards :: "source_card list"

text \<open>One card of \<^verbatim>\<open>.map((doc, index) => ...)\<close>.\<close>

definition render_card :: "nat \<Rightarrow> RelevantDocument \<Rightarrow> source_card" where
  "render_card index doc =
     \<lparr>card_title =
        (case metadata_doc doc of
           Some md \<Rightarrow>
             (case record_name md of
                Some (JString n) \<Rightarrow> if n \<noteq> [] then n else js ''Document '' @ toString (int index + 1)
              | _ \<Rightarrow> js ''Document '' @ toString (int index + 1))
         | None \<Rightarrow> js ''Document '' @ toString (int index + 1)),
      card_content = content_doc doc,
      card_source_file =
        (case metadata_doc doc of
           Some md \<Rightarrow>
             (case source_file md of
                Some (JString f) \<Rightarrow> if f \<noteq> [] then Some f else None
              | _ \<Rightarrow> None)
         | None \<Rightarrow> None)\<rparr>"

text \<open>
  \<^verbatim>\<open>{!isUser && message.metadata?.relevant_documents && (...)}\<close>; an array, even an empty
  one, is truthy.
\<close>

definition render_sources :: "ChatMessage \<Rightarrow> sources_block option" where
  "render_sources message =
     (if type_msg message \<noteq> User then
        (case metadata message of
           None \<Rightarrow> None
         | Some md \<Rightarrow>
             (case relevant_documents md of
                None \<Rightarrow> None
              | Some docs \<Rightarrow>
                  Some \<lparr>header_count = length docs,
                        cards = map (\<lambda>(index, doc). render_card index doc)
                                    (enumerate 0 (take 3 docs))\<rparr>))
      else None)"

section \<open>The component as a transition system\<close>

text \<open>
  Everything that can happen to the mounted component: the DOM events its handlers are
  attached to, and the settling of a pending \<^verbatim>\<open>apiClient.query\<close> promise. Events are
  handled one at a time, each handler reading the state of the latest render.
\<close>

datatype event =
    Change jsstring
  | KeyDown key bool clock
  | ClickSend clock
  | ClickClear int
  | ClickCommandButton
  | ClickSuggestion nat
  | MouseDownOutside
  | DismissError
  | MouseMove real real
  | FocusInput
  | BlurInput
  | QuerySettled outcome clock

text \<open>
  The component state together with the calls to \<^verbatim>\<open>apiClient.query\<close> that have been
  made and have not settled yet, oldest first.
\<close>

record system =
  ui :: chat_state
  in_flight :: "QueryRequest list"

definition issue :: "QueryRequest option \<Rightarrow> QueryRequest list \<Rightarrow> QueryRequest list" where
  "issue r pending = (case r of None \<Rightarrow> pending | Some req \<Rightarrow> pending @ [req])"

text \<open>
  The handler of each event. A handler that throws has made no state update before the
  throw. \<open>QuerySettled\<close> resumes the oldest pending call and cannot happen when none
  is pending.
\<close>

fun handle :: "event \<Rightarrow> system \<Rightarrow> system" where
  "handle (Change v) \<sigma> = \<sigma>\<lparr>ui := (ui \<sigma>)\<lparr>value_st := v\<rparr>\<rparr>"
| "handle (KeyDown k shiftKey clk) \<sigma> =
     (case handleKeyDown k shiftKey clk (ui \<sigma>) of
        Inl _ \<Rightarrow> \<sigma>
      | Inr (s', r) \<Rightarrow> \<lparr>ui = s', in_flight = issue r (in_flight \<sigma>)\<rparr>)"
| "handle (ClickSend clk) \<sigma> =
     (case handleSendMessage_begin clk (ui \<sigma>) of
        (s', r) \<Rightarrow> \<lparr>ui = s', in_flight = issue r (in_flight \<sigma>)\<rparr>)"
| "handle (ClickClear now) \<sigma> = \<sigma>\<lparr>ui := clearChat now (ui \<sigma>)\<rparr>"
| "handle ClickCommandButton \<sigma> =
     \<sigma>\<lparr>ui := (ui \<sigma>)\<lparr>showCommandPalette := \<not> showCommandPalette (ui \<sigma>)\<rparr>\<rparr>"
| "handle (ClickSuggestion index) \<sigma> =
     (case selectCommandSuggestion index (ui \<sigma>) of
        Inl _ \<Rightarrow> \<sigma>
      | Inr s' \<Rightarrow> \<sigma>\<lparr>ui := s'\<rparr>)"
| "handle MouseDownOutside \<sigma> = \<sigma>\<lparr>ui := (ui \<sigma>)\<lparr>showCommandPalette := False\<rparr>\<rparr>"
| "handle DismissError \<sigma> = \<sigma>\<lparr>ui := (ui \<sigma>)\<lparr>error := None\<rparr>\<rparr>"
| "handle (MouseMove x y) \<sigma> = \<sigma>\<lparr>ui := (ui \<sigma>)\<lparr>mousePosition := (x, y)\<rparr>\<rparr>"
| "handle FocusInput \<sigma> = \<sigma>\<lparr>ui := (ui \<sigma>)\<lparr>inputFocused := True\<rparr>\<rparr>"
| "handle BlurInput \<sigma> = \<sigma>\<lparr>ui := (ui \<sigma>)\<lparr>inputFocused := False\<rparr>\<rparr>"
| "handle (QuerySettled out clk) \<sigma> =
     (case in_flight \<sigma> of
        [] \<Rightarrow> \<sigma>
      | req # rest \<Rightarrow> \<lparr>ui = handleSendMessage_resume clk out (ui \<sigma>), in_flight = rest\<rparr>)"

text \<open>
  One step: the handler, then the render and its effects; \<open>now\<close> is what
  \<^verbatim>\<open>new Date()\<close> would give the welcome effect.
\<close>

definition step :: "int \<Rightarrow> event \<Rightarrow> system \<Rightarrow> system" where
  "step now e \<sigma> = (let \<sigma>' = handle e \<sigma> in \<sigma>'\<lparr>ui := after_render now (ui \<sigma>) (ui \<sigma>')\<rparr>)"

inductive reachable :: "system \<Rightarrow> bool" where
  mount: "reachable \<lparr>ui = mounted now, in_flight = []\<rparr>"
| event: "reachable \<sigma> \<Longrightarrow> reachable (step now e \<sigma>)"

text \<open>
  The invariant of the reachable states: a call is pending exactly while \<open>isLoading\<close>
  is set, never more than one; \<open>activeSuggestion\<close> is \<open>-1\<close> or an index into
  \<open>commandSuggestions\<close>; the message list is not empty.
\<close>

definition chat_invariant :: "system \<Rightarrow> bool" where
  "chat_invariant \<sigma> \<longleftrightarrow>
     length (in_flight \<sigma>) \<le> 1 \<and>
     (isLoading (ui \<sigma>) \<longleftrightarrow> in_flight \<sigma> \<noteq> []) \<and>
     - 1 \<le> activeSuggestion (ui \<sigma>) \<and>
     activeSuggestion (ui \<sigma>) \<le> int (length commandSuggestions) - 1 \<and>
     messages (ui \<sigma>) \<noteq> []"

section \<open>The Retriever\<close>

text \<open>
  Modelled from the spec: the Index Entry of the Retriever, the backend component
  behind the query interface (sections 3 and 4.2 of the spec). An Index Entry pairs an
  embedding vector with its chunk's content snippet and metadata. Floating-point
  numbers are idealised as reals.
\<close>

record IndexEntry =
  vector :: "real list"
  snippet :: jsstring
  entry_metadata :: doc_metadata

text \<open>
  Modelled from the spec: the metric of an index, ``cosine or L2'', which the Retriever
  must share with the index it searches.
\<close>

datatype metric = Cosine | L2

text \<open>
  Modelled from the spec: the inner product and the Euclidean norm of embedding
  vectors, from which the two metrics of the Retriever are built.
\<close>

definition dot :: "real list \<Rightarrow> real list \<Rightarrow> real" where
  "dot u v = (\<Sum>(x, y)\<leftarrow>zip u v. x * y)"

definition norm_vec :: "real list \<Rightarrow> real" where
  "norm_vec u = sqrt (\<Sum>x\<leftarrow>u. x\<^sup>2)"

text \<open>
  Modelled from the spec: the distance the Retriever computes between the query vector
  and an Index Entry. Cosine distance is one minus the cosine of the angle, on the
  scale from 0 to 2 that the spec's scenario names; where a vector has norm zero the
  quotient is undefined and the vectors are taken as orthogonal. L2 is the Euclidean
  distance.
\<close>

definition metric_distance :: "metric \<Rightarrow> real list \<Rightarrow> real list \<Rightarrow> real" where
  "metric_distance m u v =
     (case m of
        Cosine \<Rightarrow>
          (if norm_vec u * norm_vec v = 0 then 1
           else 1 - dot u v / (norm_vec u * norm_vec v))
      | L2 \<Rightarrow> sqrt (\<Sum>(x, y)\<leftarrow>zip u v. (x - y)\<^sup>2))"

text \<open>
  Modelled from the spec: \<^verbatim>\<open>search(queryText, k) -> RetrievalResult\<close>. It embeds the
  query with the model of the index (\<open>embedding\<close>), computes the distance to every Index
  Entry, and returns the \<open>k\<close> entries with smallest distance, ties in insertion order
  (\<open>sort_key\<close> is a stable insertion sort); \<open>k\<close> is clamped to
  \<open>[1, corpus size]\<close>; an empty corpus gives an empty result.
\<close>

definition search ::
    "metric \<Rightarrow> (jsstring \<Rightarrow> real list) \<Rightarrow> IndexEntry list \<Rightarrow> jsstring \<Rightarrow> int \<Rightarrow> RelevantDocument list" where
  "search m embedding index queryText k =
     (if index = [] then []
      else
        let queryVector = embedding queryText;
            scored = map (\<lambda>e. \<lparr>content_doc = snippet e,
                                 distance = metric_distance m queryVector (vector e),
                                 metadata_doc = Some (entry_metadata e)\<rparr>) index
        in take (nat (max 1 (min k (int (length index))))) (sort_key distance scored))"

section \<open>Invariants of the transition system\<close>

lemma findIndex_bounds: "- 1 \<le> findIndex p xs \<and> findIndex p xs < int (length xs)"
  by (induction xs) (auto simp: Let_def)

lemma length_commandSuggestions: "length commandSuggestions = 4"
  by (simp add: commandSuggestions_def)

lemma effect_commandPalette_frame:
  "isLoading (effect_commandPalette s) = isLoading s"
  "messages (effect_commandPalette s) = messages s"
  "error (effect_commandPalette s) = error s"
  "value_st (effect_commandPalette s) = value_st s"
  "mousePosition (effect_commandPalette s) = mousePosition s"
  "inputFocused (effect_commandPalette s) = inputFocused s"
  by (simp_all add: effect_commandPalette_def Let_def)

lemma effect_commandPalette_active:
  "- 1 \<le> activeSuggestion s \<Longrightarrow> activeSuggestion s \<le> 3 \<Longrightarrow>
   - 1 \<le> activeSuggestion (effect_commandPalette s) \<and> activeSuggestion (effect_commandPalette s) \<le> 3"
  using findIndex_bounds [of "\<lambda>cmd. startsWith (prefix cmd) (value_st s)" commandSuggestions]
  by (auto simp: effect_commandPalette_def Let_def length_commandSuggestions)

lemma after_render_frame:
  "isLoading (after_render now old new) = isLoading new"
  "error (after_render now old new) = error new"
  "value_st (after_render now old new) = value_st new"
  "mousePosition (after_render now old new) = mousePosition new"
  "inputFocused (after_render now old new) = inputFocused new"
  by (simp_all add: after_render_def Let_def effect_welcome_def effect_commandPalette_frame)

lemma after_render_messages:
  "messages new \<noteq> [] \<Longrightarrow> messages (after_render now old new) = messages new"
  by (simp add: after_render_def Let_def effect_welcome_def effect_commandPalette_frame)

lemma after_render_same_value:
  "value_st new = value_st old \<Longrightarrow> messages new \<noteq> [] \<Longrightarrow> after_render now old new = new"
  by (simp add: after_render_def Let_def effect_welcome_def)

lemma after_render_unchanged: "after_render now s s = s"
  by (simp add: after_render_def Let_def)

lemma after_render_active:
  "- 1 \<le> activeSuggestion new \<Longrightarrow> activeSuggestion new \<le> 3 \<Longrightarrow>
   - 1 \<le> activeSuggestion (after_render now old new) \<and> activeSuggestion (after_render now old new) \<le> 3"
  using effect_commandPalette_active [of new]
  by (auto simp: after_render_def Let_def effect_welcome_def)

lemma chat_invariant_mounted: "chat_invariant \<lparr>ui = mounted now, in_flight = []\<rparr>"
  by (simp add: chat_invariant_def mounted_def effect_welcome_def effect_commandPalette_def
      initial_state_def js_def length_commandSuggestions)

lemma chat_invariant_handle: "chat_invariant \<sigma> \<Longrightarrow> chat_invariant (handle e \<sigma>)"
  by (cases e)
     (auto simp: chat_invariant_def handleKeyDown_def handleSendMessage_begin_def
        handleSendMessage_resume_def clearChat_def selectCommandSuggestion_def issue_def Let_def
        length_commandSuggestions
        split: sum.splits prod.splits if_splits list.splits outcome.splits option.splits)

lemma chat_invariant_step: "chat_invariant \<sigma> \<Longrightarrow> chat_invariant (step now e \<sigma>)"
proof -
  assume "chat_invariant \<sigma>"
  then have h: "chat_invariant (handle e \<sigma>)" by (rule chat_invariant_handle)
  then show ?thesis
    using after_render_active [of "ui (handle e \<sigma>)" now "ui \<sigma>"]
    by (simp add: chat_invariant_def step_def Let_def after_render_frame after_render_messages
        length_commandSuggestions)
qed

lemma reachable_invariant: "reachable \<sigma> \<Longrightarrow> chat_invariant \<sigma>"
  by (induction rule: reachable.induct) (simp_all add: chat_invariant_mounted chat_invariant_step)

lemma begin_blocked:
  "trim (value_st s) = [] \<or> isLoading s \<Longrightarrow> handleSendMessage_begin clk s = (s, None)"
  by (auto simp: handleSendMessage_begin_def)

lemma keydown_enter_empty:
  "trim (value_st s) = [] \<Longrightarrow>
     handleKeyDown Enter shiftKey clk s = Inl TypeError \<or>
     (\<exists>s'. handleKeyDown Enter shiftKey clk s = Inr (s', None) \<and> messages s' = messages s \<and>
           isLoading s' = isLoading s \<and> error s' = error s)"
  by (simp add: handleKeyDown_def Let_def)

section \<open>Facts about the handlers\<close>

lemma begin_Some:
  "handleSendMessage_begin clk s = (s', Some req) \<Longrightarrow>
     trim (value_st s) \<noteq> [] \<and> \<not> isLoading s \<and>
     req = \<lparr>query = trim (value_st s), max_results = 5, include_metadata = True\<rparr> \<and>
     s' = s\<lparr>messages := messages s @
               [\<lparr>id_msg = toString (fst clk), type_msg = User, content = trim (value_st s),
                 timestamp = snd clk, metadata = None\<rparr>],
             value_st := [], isLoading := True, error := None\<rparr>"
  by (auto simp: handleSendMessage_begin_def Let_def split: if_splits)


lemma resume_Resolved:
  "handleSendMessage_resume clk (Resolved response) s =
     s\<lparr>messages := messages s @
           [\<lparr>id_msg = toString (fst clk + 1), type_msg = Assistant, content = answer response,
             timestamp = snd clk,
             metadata = Some \<lparr>relevant_documents = Some (relevant_documents_res response),
                              model_used = Some (model_used_res response)\<rparr>\<rparr>],
         isLoading := False\<rparr>"
  by (simp add: handleSendMessage_resume_def Let_def)

lemma resume_Rejected:
  "handleSendMessage_resume clk (Rejected err) s =
     s\<lparr>error := Some (case err of ErrorObject message \<Rightarrow> message
                                | NonError \<Rightarrow> js ''Failed to get response''),
       isLoading := False\<rparr>"
  by (simp add: handleSendMessage_resume_def)

lemma mounted_eq:
  "mounted now = \<lparr>value_st = [], activeSuggestion = - 1, showCommandPalette = False,
      mousePosition = (0, 0), messages = [welcomeMessage now], isLoading = False, error = None,
      inputFocused = False\<rparr>"
  by (simp add: mounted_def effect_welcome_def effect_commandPalette_def initial_state_def js_def)

lemma js_eq_Nil: "js s = [] \<longleftrightarrow> s = []"
  by (simp add: js_def)

lemma trim_hi: "trim (js ''hi'') = js ''hi''"
  by (simp add: trim_def js_def isWhiteSpace_def)

lemma begin_hi:
  "handleSendMessage_begin (2, 2) ((mounted 0)\<lparr>value_st := js ''hi''\<rparr>) =
     ((mounted 0)\<lparr>messages := [welcomeMessage 0,
          \<lparr>id_msg = toString 2, type_msg = User, content = js ''hi'', timestamp = 2,
            metadata = None\<rparr>],
        value_st := [], isLoading := True, error := None\<rparr>,
      Some \<lparr>query = js ''hi'', max_results = 5, include_metadata = True\<rparr>)"
  by (simp add: handleSendMessage_begin_def trim_hi js_eq_Nil mounted_eq)

section \<open>Input validation\<close>

text \<open>
  C1. When the trimmed input is empty (an empty or whitespace-only query), submitting
  it, by a click on Send or by the Enter key, makes no call to \<^verbatim>\<open>apiClient.query\<close>:
  \<^verbatim>\<open>handleSendMessage\<close> returns the state it was given with no call made, and after the
  event the pending calls, the message list, the loading flag and the error state are
  what they were.
\<close>

theorem empty_query_makes_no_call:
  "trim (value_st (ui \<sigma>)) = [] \<Longrightarrow> e = ClickSend clk \<or> e = KeyDown Enter shiftKey clk \<Longrightarrow>
     handleSendMessage api clk clk' (ui \<sigma>) = (ui \<sigma>, []) \<and>
     in_flight (step now e \<sigma>) = in_flight \<sigma> \<and>
     messages (ui (step now e \<sigma>)) = messages (ui \<sigma>) \<and>
     isLoading (ui (step now e \<sigma>)) = isLoading (ui \<sigma>) \<and>
     error (ui (step now e \<sigma>)) = error (ui \<sigma>)"
proof -
  assume empty: "trim (value_st (ui \<sigma>)) = []" and ev: "e = ClickSend clk \<or> e = KeyDown Enter shiftKey clk"
  have b: "handleSendMessage_begin clk (ui \<sigma>) = (ui \<sigma>, None)"
    using empty by (simp add: begin_blocked)
  have whole: "handleSendMessage api clk clk' (ui \<sigma>) = (ui \<sigma>, [])"
    by (simp add: handleSendMessage_def b)
  have h: "in_flight (handle e \<sigma>) = in_flight \<sigma> \<and> messages (ui (handle e \<sigma>)) = messages (ui \<sigma>)
      \<and> isLoading (ui (handle e \<sigma>)) = isLoading (ui \<sigma>) \<and> error (ui (handle e \<sigma>)) = error (ui \<sigma>)"
  proof (cases "e = ClickSend clk")
    case True
    then show ?thesis by (simp add: b issue_def)
  next
    case False
    with ev have e: "e = KeyDown Enter shiftKey clk" by simp
    from keydown_enter_empty [OF empty, of shiftKey clk] show ?thesis
      by (auto simp: e issue_def)
  qed
  have m: "messages (after_render now (ui \<sigma>) (ui (handle e \<sigma>))) = messages (ui \<sigma>)"
    using h by (simp add: after_render_def Let_def effect_welcome_def effect_commandPalette_frame)
  show ?thesis
    using whole h m by (simp add: step_def Let_def after_render_frame)
qed

theorem empty_query_makes_no_call_witness:
  "trim (js ''  '') = [] \<and>
   handleSendMessage (\<lambda>_. Rejected NonError) (5, 5) (9, 9) ((mounted 0)\<lparr>value_st := js ''  ''\<rparr>)
     = ((mounted 0)\<lparr>value_st := js ''  ''\<rparr>, []) \<and>
   in_flight (step 7 (ClickSend (5, 5)) \<lparr>ui = (mounted 0)\<lparr>value_st := js ''  ''\<rparr>, in_flight = []\<rparr>) = []"
proof -
  have t: "trim (js ''  '') = []" by (simp add: trim_def js_def isWhiteSpace_def)
  have "trim (value_st (ui \<lparr>ui = (mounted 0)\<lparr>value_st := js ''  ''\<rparr>, in_flight = []\<rparr>)) = []"
    by (simp add: t)
  from empty_query_makes_no_call [OF this, of "ClickSend (5, 5)" "(5, 5)" _ "\<lambda>_. Rejected NonError" "(9, 9)" 7]
  show ?thesis using t by simp
qed

section \<open>One query at a time\<close>




section \<open>The request sent to the pipeline\<close>

lemma handle_new_request:
  "req \<in> set (in_flight (handle e \<sigma>)) \<Longrightarrow> req \<notin> set (in_flight \<sigma>) \<Longrightarrow>
     trim (value_st (ui \<sigma>)) \<noteq> [] \<and>
     req = \<lparr>query = trim (value_st (ui \<sigma>)), max_results = 5, include_metadata = True\<rparr>"
proof (cases e)
  case (KeyDown k shiftKey clk)
  assume "req \<in> set (in_flight (handle e \<sigma>))" "req \<notin> set (in_flight \<sigma>)"
  then show ?thesis
    unfolding KeyDown
    by (auto simp: handleKeyDown_def issue_def Let_def dest: begin_Some
        split: sum.splits prod.splits if_splits option.splits)
next
  case (ClickSend clk)
  assume "req \<in> set (in_flight (handle e \<sigma>))" "req \<notin> set (in_flight \<sigma>)"
  then show ?thesis
    unfolding ClickSend
    by (auto simp: issue_def dest: begin_Some split: prod.splits option.splits)
next
  case (QuerySettled out clk)
  assume "req \<in> set (in_flight (handle e \<sigma>))" "req \<notin> set (in_flight \<sigma>)"
  then show ?thesis
    unfolding QuerySettled by (auto split: list.splits)
qed (auto simp: selectCommandSuggestion_def Let_def split: sum.splits if_splits)

text \<open>
  C4. Every request that an event adds to the pending calls has exactly the three
  fields of the query interface: \<open>query\<close> is the trimmed input (and is not empty),
  \<open>max_results\<close> is 5, inside the bound from 1 to 20, and \<open>include_metadata\<close> is
  true.
\<close>

theorem request_carries_trimmed_query_and_defaults:
  "req \<in> set (in_flight (step now e \<sigma>)) \<Longrightarrow> req \<notin> set (in_flight \<sigma>) \<Longrightarrow>
     req = \<lparr>query = trim (value_st (ui \<sigma>)), max_results = 5, include_metadata = True\<rparr> \<and>
     query req \<noteq> [] \<and> 1 \<le> max_results req \<and> max_results req \<le> 20"
proof -
  assume "req \<in> set (in_flight (step now e \<sigma>))" and old: "req \<notin> set (in_flight \<sigma>)"
  then have "req \<in> set (in_flight (handle e \<sigma>))"
    by (simp add: step_def Let_def)
  from handle_new_request [OF this old] show ?thesis by simp
qed

theorem request_carries_trimmed_query_and_defaults_witness:
  "\<lparr>query = js ''hi'', max_results = 5, include_metadata = True\<rparr>
     \<in> set (in_flight (step 1 (ClickSend (2, 2)) \<lparr>ui = (mounted 0)\<lparr>value_st := js '' hi ''\<rparr>, in_flight = []\<rparr>)) \<and>
   \<lparr>query = js ''hi'', max_results = 5, include_metadata = True\<rparr> \<notin> set [] \<and>
   trim (js '' hi '') = js ''hi''"
proof -
  let ?\<sigma> = "\<lparr>ui = (mounted 0)\<lparr>value_st := js '' hi ''\<rparr>, in_flight = []\<rparr>"
  let ?req = "\<lparr>query = js ''hi'', max_results = 5, include_metadata = True\<rparr>"
  have t: "trim (js '' hi '') = js ''hi''"
    by (simp add: trim_def js_def isWhiteSpace_def)
  have m: "?req \<in> set (in_flight (step 1 (ClickSend (2, 2)) ?\<sigma>))"
    by (simp add: step_def Let_def handleSendMessage_begin_def t mounted_eq issue_def js_eq_Nil)
  have n: "?req \<notin> set (in_flight ?\<sigma>)" by simp
  from request_carries_trimmed_query_and_defaults [OF m n] m t show ?thesis by simp
qed


section \<open>The outcome of a query\<close>

text \<open>
  C5. When the query succeeds, the continuation appends exactly one message: an
  assistant message whose content is the \<open>answer\<close> of the response and whose
  metadata holds the \<open>relevant_documents\<close> and \<open>model_used\<close> of the response as
  they came. A whole round trip makes one call and appends the user message followed
  by that one assistant message.
\<close>

theorem success_appends_one_assistant_message:
  "(\<exists>a. messages (handleSendMessage_resume clk' (Resolved response) s) = messages s @ [a] \<and>
        type_msg a = Assistant \<and> content a = answer response \<and>
        metadata a = Some \<lparr>relevant_documents = Some (relevant_documents_res response),
                           model_used = Some (model_used_res response)\<rparr>) \<and>
   (handleSendMessage_begin clk s = (s1, Some req) \<and> api req = Resolved response \<longrightarrow>
      snd (handleSendMessage api clk clk' s) = [req] \<and>
      (\<exists>u a. messages (fst (handleSendMessage api clk clk' s)) = messages s @ [u, a] \<and>
          type_msg u = User \<and> content u = query req \<and>
          type_msg a = Assistant \<and> content a = answer response \<and>
          metadata a = Some \<lparr>relevant_documents = Some (relevant_documents_res response),
                             model_used = Some (model_used_res response)\<rparr>))"
proof -
  have one: "\<exists>a. messages (handleSendMessage_resume clk' (Resolved response) s) = messages s @ [a] \<and>
        type_msg a = Assistant \<and> content a = answer response \<and>
        metadata a = Some \<lparr>relevant_documents = Some (relevant_documents_res response),
                           model_used = Some (model_used_res response)\<rparr>"
    by (simp add: resume_Resolved)
  have run: "snd (handleSendMessage api clk clk' s) = [req] \<and>
      (\<exists>u a. messages (fst (handleSendMessage api clk clk' s)) = messages s @ [u, a] \<and>
          type_msg u = User \<and> content u = query req \<and>
          type_msg a = Assistant \<and> content a = answer response \<and>
          metadata a = Some \<lparr>relevant_documents = Some (relevant_documents_res response),
                             model_used = Some (model_used_res response)\<rparr>)"
    if b: "handleSendMessage_begin clk s = (s1, Some req)" and r: "api req = Resolved response"
  proof -
    have w: "handleSendMessage api clk clk' s =
        (handleSendMessage_resume clk' (Resolved response) s1, [req])"
      by (simp add: handleSendMessage_def b r)
    from begin_Some [OF b] have
      q: "query req = trim (value_st s)" and
      m: "messages s1 = messages s @
            [\<lparr>id_msg = toString (fst clk), type_msg = User, content = trim (value_st s),
              timestamp = snd clk, metadata = None\<rparr>]"
      by simp_all
    show ?thesis
      by (simp add: w resume_Resolved m q)
  qed
  from one run show ?thesis by blast
qed


theorem success_appends_one_assistant_message_witness:
  "snd (handleSendMessage
          (\<lambda>_. Resolved \<lparr>answer = js ''ok'', relevant_documents_res = [], model_used_res = js ''m''\<rparr>)
          (2, 2) (3, 3) ((mounted 0)\<lparr>value_st := js ''hi''\<rparr>))
     = [\<lparr>query = js ''hi'', max_results = 5, include_metadata = True\<rparr>] \<and>
   (\<exists>u a. messages (fst (handleSendMessage
          (\<lambda>_. Resolved \<lparr>answer = js ''ok'', relevant_documents_res = [], model_used_res = js ''m''\<rparr>)
          (2, 2) (3, 3) ((mounted 0)\<lparr>value_st := js ''hi''\<rparr>)))
        = [welcomeMessage 0, u, a] \<and>
      type_msg u = User \<and> content u = js ''hi'' \<and> type_msg a = Assistant \<and> content a = js ''ok'' \<and>
      metadata a = Some \<lparr>relevant_documents = Some [], model_used = Some (js ''m'')\<rparr>)"
proof -
  let ?s = "(mounted 0)\<lparr>value_st := js ''hi''\<rparr>"
  let ?r = "\<lparr>answer = js ''ok'', relevant_documents_res = [], model_used_res = js ''m''\<rparr>"
  let ?req = "\<lparr>query = js ''hi'', max_results = 5, include_metadata = True\<rparr>"
  let ?s1 = "(mounted 0)\<lparr>messages := [welcomeMessage 0,
          \<lparr>id_msg = toString 2, type_msg = User, content = js ''hi'', timestamp = 2,
            metadata = None\<rparr>],
        value_st := [], isLoading := True, error := None\<rparr>"
  have b: "handleSendMessage_begin (2, 2) ?s = (?s1, Some ?req) \<and> (\<lambda>_. Resolved ?r) ?req = Resolved ?r"
    by (simp add: begin_hi)
  have m: "messages ?s = [welcomeMessage 0]"
    by (simp add: mounted_eq)
  from success_appends_one_assistant_message
         [of "(3, 3)" ?r ?s "(2, 2)" ?s1 ?req "\<lambda>_. Resolved ?r"] b
  show ?thesis unfolding m by simp
qed

text \<open>
  When the query fails no message is appended, the loading flag is reset, and the error
  state holds the message of the thrown \<^verbatim>\<open>Error\<close>, or the fallback text for any other
  thrown value. The banner shows that text unless it is empty.
\<close>

lemma failed_query_error_state:
  "messages (handleSendMessage_resume clk' (Rejected err) s) = messages s \<and>
   \<not> isLoading (handleSendMessage_resume clk' (Rejected err) s) \<and>
   error (handleSendMessage_resume clk' (Rejected (ErrorObject msg)) s) = Some msg \<and>
   error_banner (handleSendMessage_resume clk' (Rejected (ErrorObject msg)) s)
     = (if msg = [] then None else Some msg) \<and>
   error_banner (handleSendMessage_resume clk' (Rejected NonError) s)
     = Some (js ''Failed to get response'')"
  by (simp add: resume_Rejected error_banner_def js_eq_Nil)

text \<open>
  C2. A failed backend call is not always surfaced as a visible error message. When
  \<^verbatim>\<open>apiClient.query\<close> rejects with an \<^verbatim>\<open>Error\<close> whose message is the empty string,
  the call has been made, the error state becomes the empty string, and the banner,
  rendered under \<^verbatim>\<open>{error && ...}\<close>, shows nothing. The sibling branch, for thrown
  values that are not an \<^verbatim>\<open>Error\<close>, falls back to a fixed non-empty text.
\<close>

theorem failed_query_with_empty_message_shows_no_error:
  "snd (handleSendMessage (\<lambda>_. Rejected (ErrorObject [])) (2, 2) (3, 3)
          ((mounted 0)\<lparr>value_st := js ''hi''\<rparr>))
     = [\<lparr>query = js ''hi'', max_results = 5, include_metadata = True\<rparr>] \<and>
   error (fst (handleSendMessage (\<lambda>_. Rejected (ErrorObject [])) (2, 2) (3, 3)
          ((mounted 0)\<lparr>value_st := js ''hi''\<rparr>))) = Some [] \<and>
   error_banner (fst (handleSendMessage (\<lambda>_. Rejected (ErrorObject [])) (2, 2) (3, 3)
          ((mounted 0)\<lparr>value_st := js ''hi''\<rparr>))) = None"
  by (simp add: handleSendMessage_def begin_hi resume_Rejected error_banner_def)

section \<open>Clearing the chat\<close>

text \<open>
  C10. \<^verbatim>\<open>clearChat\<close> sets the message list to exactly one message, the assistant
  welcome message with id \<^verbatim>\<open>welcome\<close>, and the error state to null; the input value,
  the loading flag and every other cell of the component state keep their values, also
  after the render that follows the click, and the pending calls are untouched.
\<close>

theorem clearChat_resets_messages_and_error_only:
  "messages (clearChat now s) = [welcomeMessage now] \<and>
   id_msg (welcomeMessage now) = js ''welcome'' \<and> type_msg (welcomeMessage now) = Assistant \<and>
   error (clearChat now s) = None \<and>
   value_st (clearChat now s) = value_st s \<and>
   isLoading (clearChat now s) = isLoading s \<and>
   activeSuggestion (clearChat now s) = activeSuggestion s \<and>
   showCommandPalette (clearChat now s) = showCommandPalette s \<and>
   mousePosition (clearChat now s) = mousePosition s \<and>
   inputFocused (clearChat now s) = inputFocused s \<and>
   step now' (ClickClear now) \<sigma> = \<sigma>\<lparr>ui := clearChat now (ui \<sigma>)\<rparr>"
proof -
  have "after_render now' (ui \<sigma>) (clearChat now (ui \<sigma>)) = clearChat now (ui \<sigma>)"
    by (rule after_render_same_value) (simp_all add: clearChat_def)
  then show ?thesis
    by (simp add: step_def Let_def) (simp add: clearChat_def welcomeMessage_def)
qed

section \<open>Command palette navigation\<close>

lemma step_arrow:
  "showCommandPalette (ui \<sigma>) \<Longrightarrow>
   ui (step now (KeyDown ArrowDown shiftKey clk) \<sigma>) =
     (ui \<sigma>)\<lparr>activeSuggestion :=
        (if activeSuggestion (ui \<sigma>) < int (length commandSuggestions) - 1
         then activeSuggestion (ui \<sigma>) + 1 else 0)\<rparr> \<and>
   ui (step now (KeyDown ArrowUp shiftKey clk) \<sigma>) =
     (ui \<sigma>)\<lparr>activeSuggestion :=
        (if activeSuggestion (ui \<sigma>) > 0
         then activeSuggestion (ui \<sigma>) - 1 else int (length commandSuggestions) - 1)\<rparr>"
  by (simp add: step_def Let_def handleKeyDown_def after_render_def)

text \<open>
  C9. In every reachable state in which the command palette is shown, ArrowDown and
  ArrowUp leave \<open>activeSuggestion\<close> between 0 and the number of suggestions minus one
  and leave the palette shown. ArrowDown from the last suggestion goes to index 0 and
  otherwise one down; ArrowUp from index 0 goes to the last index and from a higher
  index one up.
\<close>

theorem arrow_keys_keep_activeSuggestion_in_bounds:
  "reachable \<sigma> \<Longrightarrow> showCommandPalette (ui \<sigma>) \<Longrightarrow>
     (let n = int (length commandSuggestions);
          cur = activeSuggestion (ui \<sigma>);
          down = activeSuggestion (ui (step now (KeyDown ArrowDown shiftKey clk) \<sigma>));
          up = activeSuggestion (ui (step now (KeyDown ArrowUp shiftKey clk) \<sigma>))
      in 0 \<le> down \<and> down \<le> n - 1 \<and> 0 \<le> up \<and> up \<le> n - 1 \<and>
         (cur = n - 1 \<longrightarrow> down = 0) \<and> (cur = 0 \<longrightarrow> up = n - 1) \<and>
         (cur < n - 1 \<longrightarrow> down = cur + 1) \<and> (0 < cur \<longrightarrow> up = cur - 1) \<and>
         showCommandPalette (ui (step now (KeyDown ArrowDown shiftKey clk) \<sigma>)) \<and>
         showCommandPalette (ui (step now (KeyDown ArrowUp shiftKey clk) \<sigma>)))"
proof -
  assume r: "reachable \<sigma>" and p: "showCommandPalette (ui \<sigma>)"
  from reachable_invariant [OF r]
  have b: "- 1 \<le> activeSuggestion (ui \<sigma>)" "activeSuggestion (ui \<sigma>) \<le> int (length commandSuggestions) - 1"
    by (simp_all add: chat_invariant_def)
  from step_arrow [OF p, of now shiftKey clk] b p show ?thesis
    by (simp add: Let_def length_commandSuggestions)
qed

lemma step_Change_mounted:
  "step 1 (Change v) \<lparr>ui = mounted 0, in_flight = []\<rparr> =
     \<lparr>ui = (if v \<noteq> [] then effect_commandPalette ((mounted 0)\<lparr>value_st := v\<rparr>) else mounted 0),
      in_flight = []\<rparr>"
  by (simp add: step_def Let_def after_render_def effect_welcome_def effect_commandPalette_frame
      mounted_eq)

lemma palette_ce:
  "effect_commandPalette ((mounted 0)\<lparr>value_st := js ''/ce''\<rparr>) =
     (mounted 0)\<lparr>value_st := js ''/ce'', showCommandPalette := True, activeSuggestion := 3\<rparr>"
  by (simp add: effect_commandPalette_def commandSuggestions_def js_def includes_space_def Let_def
      mounted_eq)

lemma palette_slash:
  "effect_commandPalette ((mounted 0)\<lparr>value_st := js ''/''\<rparr>) =
     (mounted 0)\<lparr>value_st := js ''/'', showCommandPalette := True, activeSuggestion := 0\<rparr>"
  by (simp add: effect_commandPalette_def commandSuggestions_def js_def includes_space_def Let_def
      mounted_eq)

theorem arrow_keys_keep_activeSuggestion_in_bounds_witness:
  "reachable (step 1 (Change (js ''/ce'')) \<lparr>ui = mounted 0, in_flight = []\<rparr>) \<and>
   showCommandPalette (ui (step 1 (Change (js ''/ce'')) \<lparr>ui = mounted 0, in_flight = []\<rparr>)) \<and>
   activeSuggestion (ui (step 1 (Change (js ''/ce'')) \<lparr>ui = mounted 0, in_flight = []\<rparr>)) = 3 \<and>
   activeSuggestion (ui (step 2 (KeyDown ArrowDown False (2, 2))
      (step 1 (Change (js ''/ce'')) \<lparr>ui = mounted 0, in_flight = []\<rparr>))) = 0 \<and>
   reachable (step 1 (Change (js ''/'')) \<lparr>ui = mounted 0, in_flight = []\<rparr>) \<and>
   showCommandPalette (ui (step 1 (Change (js ''/'')) \<lparr>ui = mounted 0, in_flight = []\<rparr>)) \<and>
   activeSuggestion (ui (step 1 (Change (js ''/'')) \<lparr>ui = mounted 0, in_flight = []\<rparr>)) = 0 \<and>
   activeSuggestion (ui (step 2 (KeyDown ArrowUp False (2, 2))
      (step 1 (Change (js ''/'')) \<lparr>ui = mounted 0, in_flight = []\<rparr>))) = 3"
proof -
  let ?a = "step 1 (Change (js ''/ce'')) \<lparr>ui = mounted 0, in_flight = []\<rparr>"
  let ?b = "step 1 (Change (js ''/'')) \<lparr>ui = mounted 0, in_flight = []\<rparr>"
  have ra: "reachable ?a" and rb: "reachable ?b"
    by (intro reachable.event reachable.mount)+
  have a: "showCommandPalette (ui ?a) \<and> activeSuggestion (ui ?a) = 3"
    by (simp add: step_Change_mounted palette_ce js_eq_Nil)
  have b: "showCommandPalette (ui ?b) \<and> activeSuggestion (ui ?b) = 0"
    by (simp add: step_Change_mounted palette_slash js_eq_Nil)
  from arrow_keys_keep_activeSuggestion_in_bounds [OF ra, of 2 False "(2, 2)"] a
  have da: "activeSuggestion (ui (step 2 (KeyDown ArrowDown False (2, 2)) ?a)) = 0"
    by (simp add: Let_def length_commandSuggestions)
  from arrow_keys_keep_activeSuggestion_in_bounds [OF rb, of 2 False "(2, 2)"] b
  have ub: "activeSuggestion (ui (step 2 (KeyDown ArrowUp False (2, 2)) ?b)) = 3"
    by (simp add: Let_def length_commandSuggestions)
  from ra rb a b da ub show ?thesis by simp
qed


section \<open>The Sources block of a message\<close>

text \<open>
  C8. For an assistant message that carries \<open>relevant_documents\<close>, the Sources
  block shows the full length of the list in its header and renders cards for the first
  three documents only, in order. With at most five documents returned (the
  \<open>max_results\<close> the component asks for) up to two are not displayed, and exactly two
  when five are returned.
\<close>

theorem sources_show_first_three_and_count_all:
  "type_msg message = Assistant \<Longrightarrow> metadata message = Some md \<Longrightarrow>
   relevant_documents md = Some docs \<Longrightarrow>
     (\<exists>b. render_sources message = Some b \<and>
          header_count b = length docs \<and>
          length (cards b) = min 3 (length docs) \<and>
          length (cards b) \<le> 3 \<and>
          (\<forall>i < length (cards b). cards b ! i = render_card i (docs ! i)) \<and>
          (length docs \<le> 5 \<longrightarrow> header_count b - length (cards b) \<le> 2) \<and>
          (length docs = 5 \<longrightarrow> header_count b - length (cards b) = 2))"
  by (auto simp: render_sources_def nth_enumerate_eq)

theorem sources_show_first_three_and_count_all_witness:
  "\<exists>b. render_sources
          \<lparr>id_msg = js ''1'', type_msg = Assistant, content = js ''ok'', timestamp = 0,
           metadata = Some \<lparr>relevant_documents =
               Some (map (\<lambda>n. \<lparr>content_doc = js ''doc'', distance = real n, metadata_doc = None\<rparr>)
                         [0, 1, 2, 3, 4]),
             model_used = None\<rparr>\<rparr> = Some b \<and>
        header_count b = 5 \<and> length (cards b) = 3"
proof -
  let ?docs = "map (\<lambda>n. \<lparr>content_doc = js ''doc'', distance = real n, metadata_doc = None\<rparr>)
                   [0, 1, 2, 3, 4]"
  let ?md = "\<lparr>relevant_documents = Some ?docs, model_used = None\<rparr>"
  let ?m = "\<lparr>id_msg = js ''1'', type_msg = Assistant, content = js ''ok'', timestamp = 0,
      metadata = Some ?md\<rparr>"
  have "type_msg ?m = Assistant" "metadata ?m = Some ?md" "relevant_documents ?md = Some ?docs"
    by simp_all
  from sources_show_first_three_and_count_all [OF this]
  obtain b where "render_sources ?m = Some b" "header_count b = length ?docs"
    "length (cards b) = min 3 (length ?docs)" by blast
  then show ?thesis by simp
qed


section \<open>Properties of the Retriever\<close>

lemma search_empty_corpus: "search m embedding [] queryText k = []"
  by (simp add: search_def)

lemma length_search:
  "index \<noteq> [] \<Longrightarrow>
     length (search m embedding index queryText k) = nat (max 1 (min k (int (length index))))"
proof -
  assume "index \<noteq> []"
  then have "0 < length index" by simp
  then have "nat (max 1 (min k (int (length index)))) \<le> length index" by linarith
  with \<open>index \<noteq> []\<close> show ?thesis
    by (simp add: search_def Let_def)
qed

lemma sum_squares_nonneg: "0 \<le> (\<Sum>x\<leftarrow>u. x\<^sup>2 :: real)"
  by (rule sum_list_nonneg) auto

lemma norm_vec_nonneg: "0 \<le> norm_vec u"
  by (simp add: norm_vec_def sum_squares_nonneg)

lemma norm_vec_Cons: "norm_vec (x # xs) = sqrt (x\<^sup>2 + (norm_vec xs)\<^sup>2)"
  by (simp add: norm_vec_def sum_squares_nonneg)

lemma cauchy_schwarz_step:
  fixes a b p q :: real
  assumes "0 \<le> p" "0 \<le> q"
  shows "\<bar>a * b\<bar> + p * q \<le> sqrt (a\<^sup>2 + p\<^sup>2) * sqrt (b\<^sup>2 + q\<^sup>2)"
proof -
  have "0 \<le> (\<bar>a\<bar> * q - p * \<bar>b\<bar>)\<^sup>2" by simp
  then have "2 * (\<bar>a\<bar> * \<bar>b\<bar>) * (p * q) \<le> a\<^sup>2 * q\<^sup>2 + p\<^sup>2 * b\<^sup>2"
    by (simp add: power2_diff algebra_simps)
  then have "(\<bar>a * b\<bar> + p * q)\<^sup>2 \<le> (a\<^sup>2 + p\<^sup>2) * (b\<^sup>2 + q\<^sup>2)"
    by (simp add: power2_sum abs_mult algebra_simps)
  then have "sqrt ((\<bar>a * b\<bar> + p * q)\<^sup>2) \<le> sqrt ((a\<^sup>2 + p\<^sup>2) * (b\<^sup>2 + q\<^sup>2))"
    by (rule real_sqrt_le_mono)
  moreover have "0 \<le> \<bar>a * b\<bar> + p * q" using assms by simp
  ultimately show ?thesis
    by (simp add: real_sqrt_mult)
qed

lemma cauchy_schwarz: "\<bar>dot u v\<bar> \<le> norm_vec u * norm_vec v"
proof (induction u arbitrary: v)
  case Nil
  show ?case by (simp add: dot_def norm_vec_def)
next
  case (Cons x xs)
  show ?case
  proof (cases v)
    case Nil
    then show ?thesis by (simp add: dot_def norm_vec_nonneg)
  next
    case (Cons y ys)
    have "\<bar>dot (x # xs) (y # ys)\<bar> \<le> \<bar>x * y\<bar> + \<bar>dot xs ys\<bar>"
      by (simp add: dot_def)
    also have "\<dots> \<le> \<bar>x * y\<bar> + norm_vec xs * norm_vec ys"
      using Cons.IH [of ys] by simp
    also have "\<dots> \<le> sqrt (x\<^sup>2 + (norm_vec xs)\<^sup>2) * sqrt (y\<^sup>2 + (norm_vec ys)\<^sup>2)"
      by (rule cauchy_schwarz_step) (rule norm_vec_nonneg)+
    finally show ?thesis
      by (simp add: Cons norm_vec_Cons)
  qed
qed

lemma metric_distance_nonneg: "0 \<le> metric_distance m u v"
proof (cases m)
  case Cosine
  show ?thesis
  proof (cases "norm_vec u * norm_vec v = 0")
    case True
    then show ?thesis by (simp add: metric_distance_def Cosine)
  next
    case False
    then have pos: "0 < norm_vec u * norm_vec v"
      using norm_vec_nonneg [of u] norm_vec_nonneg [of v] by (simp add: less_le)
    have "dot u v \<le> norm_vec u * norm_vec v"
      using cauchy_schwarz [of u v] by simp
    then have "dot u v / (norm_vec u * norm_vec v) \<le> 1"
      using pos by (simp add: divide_le_eq)
    then show ?thesis
      using False by (simp add: metric_distance_def Cosine)
  qed
next
  case L2
  have "0 \<le> (\<Sum>(x, y)\<leftarrow>zip u v. (x - y)\<^sup>2)"
    by (rule sum_list_nonneg) auto
  then show ?thesis by (simp add: metric_distance_def L2)
qed

lemma metric_distance_cosine_le_2: "metric_distance Cosine u v \<le> 2"
proof (cases "norm_vec u * norm_vec v = 0")
  case True
  then show ?thesis by (simp add: metric_distance_def)
next
  case False
  then have pos: "0 < norm_vec u * norm_vec v"
    using norm_vec_nonneg [of u] norm_vec_nonneg [of v] by (simp add: less_le)
  have "- (norm_vec u * norm_vec v) \<le> dot u v"
    using cauchy_schwarz [of u v] by simp
  then have "- 1 \<le> dot u v / (norm_vec u * norm_vec v)"
    using pos by (simp add: le_divide_eq)
  then show ?thesis
    using False by (simp add: metric_distance_def)
qed

text \<open>
  C6. For every index, metric, embedding model, query and \<open>k\<close>, the result of
  \<open>search\<close> is a sequence of (content, distance, metadata) entries taken from the
  index, in which every distance is non-negative and the distances are non-decreasing
  along the sequence.
\<close>

theorem search_distances_nonnegative_and_nondecreasing:
  "sorted (map distance (search m embedding index queryText k)) \<and>
   (\<forall>r \<in> set (search m embedding index queryText k).
      0 \<le> distance r \<and>
      (\<exists>e \<in> set index.
         r = \<lparr>content_doc = snippet e,
              distance = metric_distance m (embedding queryText) (vector e),
              metadata_doc = Some (entry_metadata e)\<rparr>))"
proof -
  let ?scored = "map (\<lambda>e. \<lparr>content_doc = snippet e,
                           distance = metric_distance m (embedding queryText) (vector e),
                           metadata_doc = Some (entry_metadata e)\<rparr>) index"
  let ?n = "nat (max 1 (min k (int (length index))))"
  have s: "search m embedding index queryText k = (if index = [] then [] else take ?n (sort_key distance ?scored))"
    by (simp add: search_def Let_def)
  have "sorted (map distance (sort_key distance ?scored))"
    by (rule sorted_sort_key)
  then have ord: "sorted (map distance (take ?n (sort_key distance ?scored)))"
    by (simp add: take_map [symmetric])
  have mem: "set (take ?n (sort_key distance ?scored)) \<subseteq> set ?scored"
    using set_take_subset [of ?n "sort_key distance ?scored"] by simp
  have all: "0 \<le> distance r \<and>
      (\<exists>e \<in> set index.
         r = \<lparr>content_doc = snippet e,
              distance = metric_distance m (embedding queryText) (vector e),
              metadata_doc = Some (entry_metadata e)\<rparr>)"
    if "r \<in> set (take ?n (sort_key distance ?scored))" for r
  proof -
    from that mem have "r \<in> set ?scored" by blast
    then obtain e where e: "e \<in> set index" and r: "r = \<lparr>content_doc = snippet e,
              distance = metric_distance m (embedding queryText) (vector e),
              metadata_doc = Some (entry_metadata e)\<rparr>"
      by auto
    have "0 \<le> distance r" by (simp add: r metric_distance_nonneg)
    with e r show ?thesis by blast
  qed
  show ?thesis
  proof (cases "index = []")
    case True
    then show ?thesis by (simp add: search_def)
  next
    case False
    then have "search m embedding index queryText k = take ?n (sort_key distance ?scored)"
      by (simp add: s)
    with ord all show ?thesis by simp
  qed
qed


lemma search_three_entries:
  "map distance
     (search L2 (\<lambda>_. [0, 0])
        [\<lparr>vector = [0, 0], snippet = js ''a'',
          entry_metadata = \<lparr>record_name = None, source_file = None, other_keys = []\<rparr>\<rparr>,
         \<lparr>vector = [3, 4], snippet = js ''b'',
          entry_metadata = \<lparr>record_name = None, source_file = None, other_keys = []\<rparr>\<rparr>,
         \<lparr>vector = [1, 0], snippet = js ''c'',
          entry_metadata = \<lparr>record_name = None, source_file = None, other_keys = []\<rparr>\<rparr>]
        (js ''moon'') 2) = [0, 1]"
  by (simp add: search_def metric_distance_def Let_def)

theorem search_distances_nonnegative_and_nondecreasing_witness:
  "map distance
     (search L2 (\<lambda>_. [0, 0])
        [\<lparr>vector = [0, 0], snippet = js ''a'',
          entry_metadata = \<lparr>record_name = None, source_file = None, other_keys = []\<rparr>\<rparr>,
         \<lparr>vector = [3, 4], snippet = js ''b'',
          entry_metadata = \<lparr>record_name = None, source_file = None, other_keys = []\<rparr>\<rparr>,
         \<lparr>vector = [1, 0], snippet = js ''c'',
          entry_metadata = \<lparr>record_name = None, source_file = None, other_keys = []\<rparr>\<rparr>]
        (js ''moon'') 2) = [0, 1] \<and>
   sorted (map distance
     (search L2 (\<lambda>_. [0, 0])
        [\<lparr>vector = [0, 0], snippet = js ''a'',
          entry_metadata = \<lparr>record_name = None, source_file = None, other_keys = []\<rparr>\<rparr>,
         \<lparr>vector = [3, 4], snippet = js ''b'',
          entry_metadata = \<lparr>record_name = None, source_file = None, other_keys = []\<rparr>\<rparr>,
         \<lparr>vector = [1, 0], snippet = js ''c'',
          entry_metadata = \<lparr>record_name = None, source_file = None, other_keys = []\<rparr>\<rparr>]
        (js ''moon'') 2)) \<and>
   list_all (\<lambda>r. 0 \<le> distance r) (search L2 (\<lambda>_. [0, 0])
        [\<lparr>vector = [0, 0], snippet = js ''a'',
          entry_metadata = \<lparr>record_name = None, source_file = None, other_keys = []\<rparr>\<rparr>,
         \<lparr>vector = [3, 4], snippet = js ''b'',
          entry_metadata = \<lparr>record_name = None, source_file = None, other_keys = []\<rparr>\<rparr>,
         \<lparr>vector = [1, 0], snippet = js ''c'',
          entry_metadata = \<lparr>record_name = None, source_file = None, other_keys = []\<rparr>\<rparr>]
        (js ''moon'') 2)"
  using search_distances_nonnegative_and_nondecreasing
    [of L2 "\<lambda>_. [0, 0]"
        "[\<lparr>vector = [0, 0], snippet = js ''a'',
          entry_metadata = \<lparr>record_name = None, source_file = None, other_keys = []\<rparr>\<rparr>,
         \<lparr>vector = [3, 4], snippet = js ''b'',
          entry_metadata = \<lparr>record_name = None, source_file = None, other_keys = []\<rparr>\<rparr>,
         \<lparr>vector = [1, 0], snippet = js ''c'',
          entry_metadata = \<lparr>record_name = None, source_file = None, other_keys = []\<rparr>\<rparr>]"
        "js ''moon''" 2]
    search_three_entries
  unfolding list_all_iff by blast

end
